theory Spec2Isabelle
  imports Complex_Main "HOL-Library.Sublist"
begin

section \<open>Conventions of the embedding\<close>


type_synonym datetime = int

text \<open>Truth value of an optional number: \<^verbatim>\<open>None\<close> and zero are false.\<close>

fun truthy :: "'a::zero option \<Rightarrow> bool" where
  "truthy None = False"
| "truthy (Some x) = (x \<noteq> 0)"


section \<open>Python strings\<close>

text \<open>\<^verbatim>\<open>str.isspace\<close>, which is also the class \<^verbatim>\<open>\\s\<close> of \<^verbatim>\<open>re\<close> on \<^verbatim>\<open>str\<close> patterns.\<close>

definition is_space :: "char \<Rightarrow> bool" where
  "is_space c =
     (let n = (of_char c :: nat)
      in (9 \<le> n \<and> n \<le> 13) \<or> (28 \<le> n \<and> n \<le> 32) \<or> n = 133 \<or> n = 160)"

text \<open>The class \<^verbatim>\<open>\\d\<close>, and the class \<^verbatim>\<open>[a-z0-9]\<close>.\<close>

definition is_digit :: "char \<Rightarrow> bool" where
  "is_digit c = (let n = (of_char c :: nat) in 48 \<le> n \<and> n \<le> 57)"

definition is_lower_alnum :: "char \<Rightarrow> bool" where
  "is_lower_alnum c = (let n = (of_char c :: nat) in (97 \<le> n \<and> n \<le> 122) \<or> (48 \<le> n \<and> n \<le> 57))"


text \<open>\<^verbatim>\<open>str.lower\<close>.\<close>

definition lower_char :: "char \<Rightarrow> char" where
  "lower_char c =
     (let n = (of_char c :: nat)
      in if (65 \<le> n \<and> n \<le> 90) \<or> (192 \<le> n \<and> n \<le> 222 \<and> n \<noteq> 215) then char_of (n + 32) else c)"

definition lower :: "string \<Rightarrow> string" where
  "lower s = map lower_char s"

text \<open>\<^verbatim>\<open>s.split()\<close>: the maximal runs of characters that are not white space.\<close>

fun split_words :: "string \<Rightarrow> string \<Rightarrow> string list" where
  "split_words cur [] = (if cur = [] then [] else [cur])"
| "split_words cur (c # cs) =
     (if is_space c then (if cur = [] then split_words [] cs else cur # split_words [] cs)
      else split_words (cur @ [c]) cs)"

definition py_split :: "string \<Rightarrow> string list" where
  "py_split s = split_words [] s"

text \<open>\<^verbatim>\<open>sep.join(xs)\<close>.\<close>

fun py_join :: "string \<Rightarrow> string list \<Rightarrow> string" where
  "py_join sep [] = []"
| "py_join sep [x] = x"
| "py_join sep (x # y # ys) = x @ sep @ py_join sep (y # ys)"

text \<open>\<^verbatim>\<open>s.strip()\<close> and \<^verbatim>\<open>s.rstrip(c)\<close>.\<close>

definition py_strip :: "string \<Rightarrow> string" where
  "py_strip s = rev (dropWhile is_space (rev (dropWhile is_space s)))"

definition py_rstrip :: "char \<Rightarrow> string \<Rightarrow> string" where
  "py_rstrip c s = rev (dropWhile (\<lambda>x. x = c) (rev s))"

text \<open>
  \<^verbatim>\<open>s.replace(old, new)\<close> for a non-empty \<open>old\<close>: the occurrences are replaced from left to
  right, without overlap.
\<close>

fun py_replace :: "string \<Rightarrow> string \<Rightarrow> string \<Rightarrow> string" where
  "py_replace old new [] = []"
| "py_replace old new (c # cs) =
     (if old \<noteq> [] \<and> prefix old (c # cs)
      then new @ py_replace old new (drop (length old - 1) cs)
      else c # py_replace old new cs)"

text \<open>\<^verbatim>\<open>str(n)\<close> for an integer.\<close>

fun digits_of :: "nat \<Rightarrow> string" where
  "digits_of n = (if n < 10 then [char_of (48 + n)] else digits_of (n div 10) @ [char_of (48 + n mod 10)])"

declare digits_of.simps [simp del]

definition py_str :: "int \<Rightarrow> string" where
  "py_str n = (if n < 0 then CHR ''-'' # digits_of (nat (- n)) else digits_of (nat n))"

text \<open>
  \<^verbatim>\<open>int(s)\<close> for a string: white space around, an optional sign, then decimal digits in
  groups separated by single underscores. \<^const>\<open>None\<close> is the \<^verbatim>\<open>ValueError\<close>.
\<close>

fun digit_groups :: "string \<Rightarrow> string \<Rightarrow> string list" where
  "digit_groups cur [] = [cur]"
| "digit_groups cur (c # cs) =
     (if c = CHR ''_'' then cur # digit_groups [] cs else digit_groups (cur @ [c]) cs)"

definition digit_value :: "string \<Rightarrow> nat" where
  "digit_value ds = foldl (\<lambda>n c. 10 * n + (of_char c - 48)) 0 ds"

definition py_nat :: "string \<Rightarrow> nat option" where
  "py_nat s =
     (let groups = digit_groups [] s
      in if (\<forall>g \<in> set groups. g \<noteq> [] \<and> (\<forall>c \<in> set g. is_digit c))
         then Some (digit_value (concat groups)) else None)"

definition py_int :: "string \<Rightarrow> int option" where
  "py_int s =
     (case py_strip s of
        [] \<Rightarrow> None
      | c # cs \<Rightarrow>
          if c = CHR ''-'' then map_option (\<lambda>n. - int n) (py_nat cs)
          else if c = CHR ''+'' then map_option int (py_nat cs)
          else map_option int (py_nat (c # cs)))"

section \<open>\<^verbatim>\<open>difflib.SequenceMatcher(None, a, b).ratio()\<close>\<close>

text \<open>
  The ratio of the Python standard library, which \<^verbatim>\<open>_calculate_match_score\<close> calls. With 200
  or more characters in \<open>b\<close>, a character that occurs more than \<open>len(b) // 100 + 1\<close> times
  in \<open>b\<close> is popular and takes no part in the search for the longest match.
\<close>

definition popular :: "string \<Rightarrow> char set" where
  "popular b =
     (let n = length b
      in if 200 \<le> n then {c \<in> set b. n div 100 + 1 < count_list b c} else {})"

text \<open>
  One row of \<^verbatim>\<open>find_longest_match\<close>: \<open>newj2len[j] = j2len[j - 1] + 1\<close> at every \<open>j\<close> where \<open>b[j]\<close>
  is the character \<open>x\<close> of \<open>a\<close>. The rows are lists over the indices of \<open>b\<close>, 0 where the
  dictionary has no entry.
\<close>

fun next_row :: "char set \<Rightarrow> char \<Rightarrow> string \<Rightarrow> nat list \<Rightarrow> nat list" where
  "next_row pop x [] prev = []"
| "next_row pop x (y # ys) prev =
     (if y = x \<and> y \<notin> pop then Suc (case prev of [] \<Rightarrow> 0 | p # _ \<Rightarrow> p) else 0)
     # next_row pop x ys (case prev of [] \<Rightarrow> [] | _ # ps \<Rightarrow> ps)"

text \<open>The best match so far is \<open>(besti, bestj, bestsize)\<close>; a longer one replaces it.\<close>

fun scan_row :: "nat \<Rightarrow> nat \<Rightarrow> nat list \<Rightarrow> nat \<times> nat \<times> nat \<Rightarrow> nat \<times> nat \<times> nat" where
  "scan_row i j [] best = best"
| "scan_row i j (k # ks) (besti, bestj, bestsize) =
     scan_row i (Suc j) ks
       (if bestsize < k then (Suc i - k, Suc j - k, k) else (besti, bestj, bestsize))"

fun longest_loop ::
  "char set \<Rightarrow> string \<Rightarrow> nat \<Rightarrow> string \<Rightarrow> nat list \<Rightarrow> nat \<times> nat \<times> nat \<Rightarrow> nat \<times> nat \<times> nat" where
  "longest_loop pop [] i b j2len best = best"
| "longest_loop pop (x # xs) i b j2len best =
     (let newj2len = next_row pop x b (0 # j2len)
      in longest_loop pop xs (Suc i) b newj2len (scan_row i 0 newj2len best))"

fun common_prefix_len :: "'a list \<Rightarrow> 'a list \<Rightarrow> nat" where
  "common_prefix_len (x # xs) (y # ys) = (if x = y then Suc (common_prefix_len xs ys) else 0)"
| "common_prefix_len _ _ = 0"

text \<open>
  \<^verbatim>\<open>find_longest_match\<close> on the whole of \<open>a\<close> and \<open>b\<close>: the search, then the extension of the
  match to the left and to the right over equal characters. There is no junk
  (\<^verbatim>\<open>isjunk\<close> is \<^verbatim>\<open>None\<close>), so the two loops over junk do nothing.
\<close>

definition find_longest_match :: "char set \<Rightarrow> string \<Rightarrow> string \<Rightarrow> nat \<times> nat \<times> nat" where
  "find_longest_match pop a b =
     (case longest_loop pop a 0 b [] (0, 0, 0) of
        (besti, bestj, bestsize) \<Rightarrow>
          let l = common_prefix_len (rev (take besti a)) (rev (take bestj b));
              r = common_prefix_len (drop (besti + bestsize) a) (drop (bestj + bestsize) b)
          in (besti - l, bestj - l, bestsize + l + r))"

lemma next_row_le:
  "\<forall>k \<in> set prev. k \<le> n \<Longrightarrow> \<forall>k \<in> set (next_row pop x b prev). k \<le> Suc n"
  by (induction b arbitrary: prev) (auto split: list.splits)

lemma scan_row_sum:
  "\<forall>k \<in> set row. k \<le> Suc i \<Longrightarrow> fst best + snd (snd best) \<le> Suc i \<Longrightarrow>
   fst (scan_row i j row best) + snd (snd (scan_row i j row best)) \<le> Suc i"
proof (induction row arbitrary: j best)
  case Nil
  then show ?case by simp
next
  case (Cons k ks)
  obtain bi bj bs where b: "best = (bi, bj, bs)" by (cases best)
  show ?case using Cons.prems unfolding b
    by (auto intro!: Cons.IH)
qed

lemma longest_loop_sum:
  "\<forall>k \<in> set j2len. k \<le> i \<Longrightarrow> fst best + snd (snd best) \<le> i \<Longrightarrow>
   fst (longest_loop pop a i b j2len best) + snd (snd (longest_loop pop a i b j2len best))
     \<le> i + length a"
proof (induction a arbitrary: i j2len best)
  case Nil
  then show ?case by simp
next
  case (Cons x xs)
  let ?row = "next_row pop x b (0 # j2len)"
  have r: "\<forall>k \<in> set ?row. k \<le> Suc i"
    using Cons.prems(1) by (intro next_row_le) auto
  have s: "fst (scan_row i 0 ?row best) + snd (snd (scan_row i 0 ?row best)) \<le> Suc i"
    using r Cons.prems(2) by (intro scan_row_sum) auto
  show ?case using Cons.IH[OF r s] by (simp add: Let_def)
qed

lemma common_prefix_len_le: "common_prefix_len xs ys \<le> length xs"
  by (induction xs ys rule: common_prefix_len.induct) auto

lemma find_longest_match_bound:
  assumes h: "find_longest_match pop a b = (i, j, k)"
  shows "i + k \<le> length a"
proof -
  obtain bi bj bs where l: "longest_loop pop a 0 b [] (0, 0, 0) = (bi, bj, bs)"
    by (cases "longest_loop pop a 0 b [] (0, 0, 0)")
  have s: "bi + bs \<le> length a"
    using longest_loop_sum[of "[]" 0 "(0, 0, 0)" pop a b] by (simp add: l)
  let ?l = "common_prefix_len (rev (take bi a)) (rev (take bj b))"
  let ?r = "common_prefix_len (drop (bi + bs) a) (drop (bj + bs) b)"
  have "?l \<le> bi" using common_prefix_len_le[of "rev (take bi a)" "rev (take bj b)"] by simp
  moreover have "?r \<le> length a - (bi + bs)"
    using common_prefix_len_le[of "drop (bi + bs) a" "drop (bj + bs) b"] by simp
  moreover have "i = bi - ?l" "k = bs + ?l + ?r"
    using h by (simp_all add: find_longest_match_def l Let_def)
  ultimately show ?thesis using s by linarith
qed

text \<open>
  \<^verbatim>\<open>get_matching_blocks\<close>, summed: the longest match, then the same to its left and to its
  right. The total is the \<open>matches\<close> of \<^verbatim>\<open>ratio\<close>.
\<close>

function matches :: "char set \<Rightarrow> string \<Rightarrow> string \<Rightarrow> nat" where
  "matches pop a b =
     (case find_longest_match pop a b of
        (i, j, k) \<Rightarrow>
          if k = 0 then 0
          else k
            + (if 0 < i \<and> 0 < j then matches pop (take i a) (take j b) else 0)
            + (if i + k < length a \<and> j + k < length b
               then matches pop (drop (i + k) a) (drop (j + k) b) else 0))"
  by pat_completeness auto
termination
  apply (relation "measure (\<lambda>(pop, a, b). length a)")
    apply simp
   apply (auto dest!: find_longest_match_bound[OF sym])
  done

declare matches.simps [simp del]

definition ratio :: "string \<Rightarrow> string \<Rightarrow> rat" where
  "ratio a b =
     (let len = length a + length b
      in if len = 0 then 1 else 2 * of_nat (matches (popular b) a b) / of_nat len)"

section \<open>Rotten Tomatoes: title matching and identifier resolution\<close>

definition BASE_URL :: string where
  "BASE_URL = ''https://www.rottentomatoes.com''"

text \<open>The local function \<^verbatim>\<open>normalize\<close> of \<^verbatim>\<open>_calculate_match_score\<close>.\<close>

definition strip_article :: "string \<Rightarrow> string \<Rightarrow> string" where
  "strip_article t article = (if prefix article t then drop (length article) t else t)"

definition normalize :: "string \<Rightarrow> string" where
  "normalize t =
     py_join '' ''
       (py_split
         (filter (\<lambda>c. is_lower_alnum c \<or> is_space c)
           (foldl strip_article (lower t) [''the '', ''a '', ''an ''])))"

definition word_overlap :: "string \<Rightarrow> string \<Rightarrow> rat" where
  "word_overlap search_norm result_norm =
     (let search_words = set (py_split search_norm);
          result_words = set (py_split result_norm)
      in if search_words \<noteq> {} \<and> result_words \<noteq> {}
         then of_nat (card (search_words \<inter> result_words))
                / of_nat (max (card search_words) (card result_words))
         else 0)"

definition calculate_match_score :: "string \<Rightarrow> string \<Rightarrow> rat" where
  "calculate_match_score search_title result_title =
     (let search_norm = normalize search_title;
          result_norm = normalize result_title
      in if search_norm = result_norm then 1
         else if sublist search_norm result_norm \<or> sublist result_norm search_norm
         then 9 / 10 * (of_nat (min (length search_norm) (length result_norm))
                          / of_nat (max (length search_norm) (length result_norm)))
         else max (ratio search_norm result_norm) (word_overlap search_norm result_norm))"

text \<open>
  The four signals as the specification words them, on the normalized titles, and their
  maximum. They are what \<^verbatim>\<open>_calculate_match_score\<close> is compared with below.
\<close>

definition exact_signal :: "string \<Rightarrow> string \<Rightarrow> rat" where
  "exact_signal x y = (if x = y then 1 else 0)"

definition containment_signal :: "string \<Rightarrow> string \<Rightarrow> rat" where
  "containment_signal x y =
     (if sublist x y \<or> sublist y x
      then 9 / 10 * (of_nat (min (length x) (length y)) / of_nat (max (length x) (length y)))
      else 0)"

definition max_of_signals :: "string \<Rightarrow> string \<Rightarrow> rat" where
  "max_of_signals a b =
     (let x = normalize a; y = normalize b
      in max (max (exact_signal x y) (containment_signal x y)) (max (ratio x y) (word_overlap x y)))"

text \<open>\<^verbatim>\<open>_generate_slug\<close>.\<close>

definition generate_slug :: "string \<Rightarrow> int option \<Rightarrow> string" where
  "generate_slug t y =
     (let slug = py_join ''_''
            (py_split (filter (\<lambda>c. is_lower_alnum c \<or> is_space c)
               (py_replace ''&'' '' and '' (lower t))))
      in case y of
           Some n \<Rightarrow> if n \<noteq> 0 then slug @ ''_'' @ py_str n else slug
         | None \<Rightarrow> slug)"

text \<open>
  One \<^verbatim>\<open>search-page-media-row\<close> of the search page: the text and the \<^verbatim>\<open>href\<close> of its link
  \<^verbatim>\<open>a[data-qa="info-name"]\<close> (\<^const>\<open>None\<close> when looking the link up raises), and its attribute
  \<^verbatim>\<open>startyear\<close>.
\<close>

record search_row =
  info_name :: "(string \<times> string option) option"
  startyear :: "string option"

text \<open>
  What loading the search page gave: \<open>SearchFailed\<close> when the driver, the page load or the
  wait for the first row raised (the time-out included), the rows otherwise.
\<close>

datatype search_page = SearchFailed | SearchRows "search_row list"

type_synonym best_match = "string \<times> string option \<times> string option \<times> rat"

text \<open>The year bonus or penalty: \<open>(year_compatible, match_score)\<close>.\<close>

definition year_bonus :: "int option \<Rightarrow> string option \<Rightarrow> rat \<Rightarrow> bool \<times> rat" where
  "year_bonus y result_year match_score =
     (case (y, result_year) of
        (Some yr, Some ry) \<Rightarrow>
          if yr \<noteq> 0 \<and> ry \<noteq> [] then
            (case py_int ry of
               None \<Rightarrow> (True, match_score)
             | Some result_year_int \<Rightarrow>
                 if \<bar>result_year_int - yr\<bar> \<le> 2 then (True, match_score + 1 / 10)
                 else (False, match_score))
          else (True, match_score)
      | _ \<Rightarrow> (True, match_score))"

text \<open>One turn of the loop over the rows, on \<open>(best_match, best_score)\<close>.\<close>

definition consider_row ::
  "string \<Rightarrow> int option \<Rightarrow> best_match option \<times> rat \<Rightarrow> search_row \<Rightarrow> best_match option \<times> rat" where
  "consider_row t y best row =
     (case info_name row of
        None \<Rightarrow> best
      | Some (link_text, result_url) \<Rightarrow>
          let result_title = py_strip link_text
          in if (case result_url of None \<Rightarrow> False | Some u \<Rightarrow> u \<noteq> [] \<and> sublist ''/tv/'' u)
             then best
             else
               (case year_bonus y (startyear row) (calculate_match_score t result_title) of
                  (year_compatible, match_score) \<Rightarrow>
                    if year_compatible \<and> snd best < match_score
                    then (Some (result_title, result_url, startyear row, match_score), match_score)
                    else best))"


text \<open>
  \<^verbatim>\<open>_search_via_selenium\<close>. A best match without \<^verbatim>\<open>href\<close> makes \<^verbatim>\<open>result_url.replace\<close>
  raise, which the function catches: it returns \<^verbatim>\<open>None\<close>.
\<close>

definition search_via_selenium :: "search_page \<Rightarrow> string \<Rightarrow> int option \<Rightarrow> string option" where
  "search_via_selenium page t y =
     (case page of
        SearchFailed \<Rightarrow> None
      | SearchRows results \<Rightarrow>
          if results = [] then None
          else
            (case foldl (consider_row t y) (None, 0) results of
               (Some (result_title, result_url, result_year, score), best_score) \<Rightarrow>
                 if 7 / 10 \<le> best_score then
                   (case result_url of
                      None \<Rightarrow> None
                    | Some u \<Rightarrow> Some (py_rstrip CHR ''/'' (py_replace (BASE_URL @ ''/m/'') [] u)))
                 else None
             | (None, best_score) \<Rightarrow> None))"

text \<open>
  \<^verbatim>\<open>search_movie\<close> of the Rotten Tomatoes scraper; \<open>page1\<close> and \<open>page2\<close> are what the search
  page gives at the first and at the second search.
\<close>

definition nonempty :: "string option \<Rightarrow> bool" where
  "nonempty s = (case s of None \<Rightarrow> False | Some x \<Rightarrow> x \<noteq> [])"

definition rt_search_movie ::
  "search_page \<Rightarrow> search_page \<Rightarrow> string \<Rightarrow> int option \<Rightarrow> string option" where
  "rt_search_movie page1 page2 t y =
     (let slug = search_via_selenium page1 t None
      in if nonempty slug then slug
         else if truthy y \<and> nonempty (search_via_selenium page2 t y)
         then search_via_selenium page2 t y
         else Some (generate_slug t None))"

section \<open>Rotten Tomatoes: review cards and deduplication\<close>

text \<open>
  A review, the dictionary that both scrapers build. \<open>source_id\<close> and \<open>review_type\<close> are
  \<^const>\<open>None\<close> where the dictionary has \<^verbatim>\<open>None\<close> or no such key. The keys \<^verbatim>\<open>text\<close>, \<^verbatim>\<open>rating\<close>
  and \<^verbatim>\<open>title\<close> are the fields \<open>review_text\<close>, \<open>review_rating\<close> and \<open>review_title\<close>.
\<close>

record review =
  source_id :: "string option"
  review_text :: string
  review_rating :: "rat option"
  review_title :: "string option"
  author :: "string option"
  review_date :: "datetime option"
  helpful_count :: int
  not_helpful_count :: int
  review_length :: nat
  word_count :: nat
  review_type :: "string option"

text \<open>
  A \<^verbatim>\<open>review-card\<close> element, as far as \<^verbatim>\<open>_parse_review_card_selenium\<close> reads it. A lookup that
  raises \<^verbatim>\<open>NoSuchElementException\<close> is \<^const>\<open>None\<close>. \<open>js_text\<close> is what the script returns for
  the content span, \<open>span_text\<close> and \<open>drawer_text\<close> are the \<^verbatim>\<open>.text\<close> of the elements,
  \<open>card_content\<close> is the \<^verbatim>\<open>.text\<close> of a content span looked up from the card itself, and
  \<open>card_date\<close> is the date that \<^verbatim>\<open>_parse_relative_timestamp\<close> reads off the time stamp slot.
\<close>

record content_span =
  js_text :: string
  span_text :: string

record drawer_more =
  content :: "content_span option"
  drawer_text :: string

record review_card =
  drawer :: "drawer_more option"
  card_content :: "string option"
  author_name :: "string option"
  card_date :: "datetime option"

definition clean_artifacts :: "string \<Rightarrow> string" where
  "clean_artifacts s =
     py_strip (py_replace ''See More'' [] (py_replace ''See Less'' []
       (py_replace ''Content collapsed.'' [] s)))"

definition fallback_text :: "review_card \<Rightarrow> string option" where
  "fallback_text card_element = map_option (\<lambda>s. clean_artifacts (py_strip s)) (card_content card_element)"

definition card_text :: "review_card \<Rightarrow> string option" where
  "card_text card_element =
     (case drawer card_element of
        None \<Rightarrow> fallback_text card_element
      | Some d \<Rightarrow>
          (case content d of
             None \<Rightarrow> fallback_text card_element
           | Some sp \<Rightarrow>
               let t = (if js_text sp = [] then py_strip (span_text sp) else js_text sp)
               in if t \<noteq> [] \<and> 10 \<le> length t then Some (clean_artifacts t)
                  else Some (clean_artifacts (py_strip (drawer_text d)))))"

definition card_review_type :: "string \<Rightarrow> string" where
  "card_review_type endpoint_type =
     (if sublist ''critic'' endpoint_type
      then (if sublist ''top'' endpoint_type then ''top_critic'' else ''critic'')
      else (if sublist ''verified'' endpoint_type then ''verified_audience'' else ''audience''))"

text \<open>
  \<^verbatim>\<open>_parse_review_card_selenium\<close>. \<open>hash\<close> is the built-in \<^verbatim>\<open>hash\<close> of the running Python
  process on strings.
\<close>

definition parse_review_card_selenium ::
  "(string \<Rightarrow> int) \<Rightarrow> review_card \<Rightarrow> string \<Rightarrow> review option" where
  "parse_review_card_selenium hash card_element endpoint_type =
     (case card_text card_element of
        None \<Rightarrow> None
      | Some t \<Rightarrow>
          if t = [] \<or> length t < 10 then None
          else Some
            \<lparr>source_id = Some (''rt_'' @ endpoint_type @ ''_'' @ py_str (hash t)),
             review_text = t,
             review_rating = None,
             review_title = None,
             author = map_option py_strip (author_name card_element),
             review_date = card_date card_element,
             helpful_count = 0,
             not_helpful_count = 0,
             review_length = length t,
             word_count = length (py_split t),
             review_type = Some (card_review_type endpoint_type)\<rparr>)"












section \<open>IMDb: review containers and fuzzy search\<close>








text \<open>
  One entry of \<^verbatim>\<open>results\<close> in \<^verbatim>\<open>search_movie_fuzzy\<close>; the keys \<^verbatim>\<open>title\<close> and \<^verbatim>\<open>year\<close> are the
  fields \<open>result_title\<close> and \<open>result_year\<close>.
\<close>

record fuzzy_result =
  result_title :: string
  imdb_id :: string
  result_year :: "string option"








section \<open>Rating reconciliation (\<^verbatim>\<open>Movie\<close> in \<^verbatim>\<open>src/database/models.py\<close>)\<close>

record movie =
  tmdb_rating :: "rat option"
  tmdb_vote_count :: "int option"
  imdb_rating :: "rat option"
  imdb_vote_count :: "int option"
  scraped_at :: "datetime option"














section \<open>Example inputs\<close>

text \<open>
  Concrete pages, cards and containers for the examples below. \<open>example_hash seed\<close> stands
  for the \<^verbatim>\<open>hash\<close> of a Python process whose hash secret is \<open>seed\<close>, and \<open>example_score n\<close>
  for a \<^verbatim>\<open>fuzz.token_sort_ratio\<close> that scores the pair at hand \<open>n\<close>.
\<close>

definition example_hash :: "int \<Rightarrow> string \<Rightarrow> int" where
  "example_hash seed s = seed + int (length s)"

definition example_card :: review_card where
  "example_card =
     \<lparr>drawer = Some \<lparr>content = Some \<lparr>js_text = ''A great movie.'', span_text = ''A great movie.''\<rparr>,
                      drawer_text = ''A great movie.''\<rparr>,
      card_content = None, author_name = Some ''Ann'', card_date = None\<rparr>"

definition example_review :: "string \<Rightarrow> string \<Rightarrow> string \<Rightarrow> review" where
  "example_review sid t ty =
     \<lparr>source_id = Some sid, review_text = t, review_rating = None, review_title = None,
      author = Some ''Ann'', review_date = None, helpful_count = 0, not_helpful_count = 0,
      review_length = length t, word_count = length (py_split t), review_type = Some ty\<rparr>"






section \<open>Properties of the title matching\<close>

lemma matches_le: "matches pop a b \<le> length a"
proof (induction pop a b rule: matches.induct)
  case (1 pop a b)
  obtain i j k where f: "find_longest_match pop a b = (i, j, k)"
    by (cases "find_longest_match pop a b")
  have b: "i + k \<le> length a" by (rule find_longest_match_bound[OF f])
  show ?case
  proof (cases "k = 0")
    case True
    then show ?thesis by (subst matches.simps) (simp add: f)
  next
    case False
    have l: "0 < i \<and> 0 < j \<Longrightarrow> matches pop (take i a) (take j b) \<le> i"
      using "1.IH"(1)[of i "(j, k)" j k] f False by simp
    have r: "i + k < length a \<and> j + k < length b \<Longrightarrow>
        matches pop (drop (i + k) a) (drop (j + k) b) \<le> length a - (i + k)"
      using "1.IH"(2)[of i "(j, k)" j k] f False by simp
    show ?thesis using l r b False
      by (subst matches.simps) (auto simp: f)
  qed
qed

lemma ratio_self_le: "ratio x x \<le> 1"
  using matches_le[of "popular x" x x] by (simp add: ratio_def Let_def)

lemma ratio_nonneg: "0 \<le> ratio x y"
  by (simp add: ratio_def Let_def)

lemma of_nat_quotient_le_1: "m \<le> M \<Longrightarrow> (of_nat m :: rat) / of_nat M \<le> 1"
  by (cases "M = 0") (simp_all add: pos_divide_le_eq)

lemma word_overlap_bounds: "0 \<le> word_overlap x y \<and> word_overlap x y \<le> 1"
proof -
  let ?A = "set (py_split x)" and ?B = "set (py_split y)"
  have "card (?A \<inter> ?B) \<le> card ?A" by (simp add: card_mono)
  then have "card (?A \<inter> ?B) \<le> max (card ?A) (card ?B)" by simp
  then have "(of_nat (card (?A \<inter> ?B)) :: rat) / of_nat (max (card ?A) (card ?B)) \<le> 1"
    by (rule of_nat_quotient_le_1)
  then show ?thesis
    by (simp add: word_overlap_def Let_def)
qed

lemma containment_signal_bounds: "0 \<le> containment_signal x y \<and> containment_signal x y \<le> 9 / 10"
proof -
  have "(of_nat (min (length x) (length y)) :: rat) / of_nat (max (length x) (length y)) \<le> 1"
    by (rule of_nat_quotient_le_1) simp
  then show ?thesis by (simp add: containment_signal_def)
qed


text \<open>
  Claim C1, as amended. \<^verbatim>\<open>_calculate_match_score\<close> tries the signals in order and returns
  the first that applies: 1 when the normalized titles are equal, 0.9 times the ratio of
  the lengths when one contains the other, and otherwise the larger of the sequence ratio
  and the token overlap. That is the maximum of the four signals whenever the normalized
  titles are equal or neither contains the other; when one properly contains the other
  the score is the containment signal whatever the other signals are, and never above the
  maximum.
\<close>

theorem calculate_match_score_cascade:
  "calculate_match_score a b =
     (if normalize a = normalize b then exact_signal (normalize a) (normalize b)
      else if sublist (normalize a) (normalize b) \<or> sublist (normalize b) (normalize a)
      then containment_signal (normalize a) (normalize b)
      else max (ratio (normalize a) (normalize b)) (word_overlap (normalize a) (normalize b)))
   \<and> (normalize a = normalize b
        \<or> \<not> (sublist (normalize a) (normalize b) \<or> sublist (normalize b) (normalize a))
       \<longrightarrow> calculate_match_score a b = max_of_signals a b)
   \<and> calculate_match_score a b \<le> max_of_signals a b"
proof -
  let ?x = "normalize a" and ?y = "normalize b"
  have c: "calculate_match_score a b =
     (if ?x = ?y then exact_signal ?x ?y
      else if sublist ?x ?y \<or> sublist ?y ?x then containment_signal ?x ?y
      else max (ratio ?x ?y) (word_overlap ?x ?y))"
    by (simp add: calculate_match_score_def exact_signal_def containment_signal_def Let_def)
  have eq: "?x = ?y \<Longrightarrow> max_of_signals a b = 1"
    using ratio_self_le[of ?x] word_overlap_bounds[of ?x ?x] containment_signal_bounds[of ?x ?x]
    by (simp add: max_of_signals_def exact_signal_def Let_def max_def)
  have ne: "?x \<noteq> ?y \<Longrightarrow> \<not> (sublist ?x ?y \<or> sublist ?y ?x) \<Longrightarrow>
      max_of_signals a b = max (ratio ?x ?y) (word_overlap ?x ?y)"
    using ratio_nonneg[of ?x ?y]
    by (simp add: max_of_signals_def exact_signal_def containment_signal_def Let_def max_def)
  have le: "calculate_match_score a b \<le> max_of_signals a b"
  proof (cases "?x = ?y")
    case True
    then show ?thesis using eq c by (simp add: exact_signal_def)
  next
    case False
    show ?thesis
    proof (cases "sublist ?x ?y \<or> sublist ?y ?x")
      case True
      with False c have "calculate_match_score a b = containment_signal ?x ?y" by simp
      then show ?thesis by (simp add: max_of_signals_def Let_def)
    next
      case False
      with \<open>?x \<noteq> ?y\<close> c ne show ?thesis by simp
    qed
  qed
  show ?thesis using c eq ne le by (auto simp: exact_signal_def)
qed

text \<open>
  ``Rocky II'' against ``Rocky 2'': neither normalized title contains the other, and the
  score 0.8 is the maximum of the signals.
\<close>

theorem calculate_match_score_cascade_witness:
  "calculate_match_score ''Rocky II'' ''Rocky 2'' = max_of_signals ''Rocky II'' ''Rocky 2''
   \<and> calculate_match_score ''Rocky II'' ''Rocky 2'' = 4 / 5"
proof -
  have n: "normalize ''Rocky II'' = ''rocky ii''" "normalize ''Rocky 2'' = ''rocky 2''"
    by code_simp+
  have s: "\<not> (sublist ''rocky ii'' ''rocky 2'' \<or> sublist ''rocky 2'' ''rocky ii'')"
    by code_simp
  have v: "max (ratio ''rocky ii'' ''rocky 2'') (word_overlap ''rocky ii'' ''rocky 2'') = 4 / 5"
    by code_simp
  show ?thesis
    using calculate_match_score_cascade [of "''Rocky II''" "''Rocky 2''"] s v
    by (simp add: n)
qed

text \<open>
  ``Star Wars'' against ``Star Wars: Episode One'': the score is 0.9 * 9 / 21, below the
  token overlap 1/2 and below the sequence ratio 3/5.
\<close>

theorem calculate_match_score_containment_counterexample:
  "calculate_match_score ''Star Wars'' ''Star Wars: Episode One'' = 27 / 70
   \<and> word_overlap (normalize ''Star Wars'') (normalize ''Star Wars: Episode One'') = 1 / 2
   \<and> ratio (normalize ''Star Wars'') (normalize ''Star Wars: Episode One'') = 3 / 5
   \<and> calculate_match_score ''Star Wars'' ''Star Wars: Episode One''
       < max_of_signals ''Star Wars'' ''Star Wars: Episode One''"
  by code_simp

section \<open>Properties of the deduplication\<close>

















section \<open>Properties of the rating reconciliation\<close>


















section \<open>Properties of the identifier resolution\<close>












lemma split_words_Nil: "(split_words cur s = []) = (cur = [] \<and> (\<forall>c \<in> set s. is_space c))"
  by (induction s arbitrary: cur) auto

lemma split_words_nonempty: "[] \<notin> set (split_words cur s)"
  by (induction s arbitrary: cur) auto

lemma py_join_Nil: "[] \<notin> set ws \<Longrightarrow> (py_join sep ws = []) = (ws = [])"
  by (induction sep ws rule: py_join.induct) auto

lemma join_split_Nil: "(py_join sep (py_split s) = []) = (\<forall>c \<in> set s. is_space c)"
  by (simp add: py_split_def py_join_Nil split_words_nonempty split_words_Nil)

lemma alnum_not_space: "is_lower_alnum c \<Longrightarrow> \<not> is_space c"
  by (auto simp: is_lower_alnum_def is_space_def Let_def)

lemma py_replace_single:
  "py_replace [x] new s = concat (map (\<lambda>c. if c = x then new else [c]) s)"
  by (induction s) auto

lemma generate_slug_empty:
  "(generate_slug t None = []) = (\<forall>c \<in> set (lower t). \<not> is_lower_alnum c \<and> c \<noteq> CHR ''&'')"
proof -
  have a: "is_lower_alnum CHR ''a''" by code_simp
  have "(generate_slug t None = []) =
      (\<forall>c \<in> set (py_replace ''&'' '' and '' (lower t)). \<not> is_lower_alnum c)"
    using alnum_not_space by (auto simp: generate_slug_def Let_def join_split_Nil)
  also have "\<dots> = (\<forall>c \<in> set (lower t). \<not> is_lower_alnum c \<and> c \<noteq> CHR ''&'')"
    using a by (auto simp: py_replace_single split: if_splits)
  finally show ?thesis .
qed

lemma rt_search_movie_Some: "\<exists>s. rt_search_movie page1 page2 t y = Some s"
  by (auto simp: rt_search_movie_def Let_def nonempty_def split: option.splits)







text \<open>
  Claim C10, as amended. The Rotten Tomatoes \<^verbatim>\<open>search_movie\<close> always returns a string and
  never \<^verbatim>\<open>None\<close>; a search that fails or times out gives \<^verbatim>\<open>None\<close> for its stage, and when both
  searches give nothing the result is the generated slug. The generated slug is empty
  exactly when the lower-cased title has no letter \<open>a\<close> to \<open>z\<close>, no digit and no \<open>&\<close>.
\<close>

theorem rt_search_movie_returns_string:
  "(\<exists>s. rt_search_movie page1 page2 t y = Some s)
   \<and> search_via_selenium SearchFailed t y = None
   \<and> (\<not> nonempty (search_via_selenium page1 t None)
        \<and> (truthy y \<longrightarrow> \<not> nonempty (search_via_selenium page2 t y))
       \<longrightarrow> rt_search_movie page1 page2 t y = Some (generate_slug t None))
   \<and> (generate_slug t None = []) = (\<forall>c \<in> set (lower t). \<not> is_lower_alnum c \<and> c \<noteq> CHR ''&'')"
  using rt_search_movie_Some[of page1 page2 t y] generate_slug_empty[of t]
  by (auto simp: rt_search_movie_def Let_def search_via_selenium_def)

theorem rt_search_movie_returns_string_witness:
  "rt_search_movie SearchFailed SearchFailed ''Deadpool & Wolverine'' (Some 2024)
     = Some ''deadpool_and_wolverine''
   \<and> generate_slug ''Deadpool & Wolverine'' None \<noteq> []"
proof -
  have s: "generate_slug ''Deadpool & Wolverine'' None = ''deadpool_and_wolverine''"
    by code_simp
  have n: "\<not> nonempty (search_via_selenium SearchFailed ''Deadpool & Wolverine'' None)"
    "\<not> nonempty (search_via_selenium SearchFailed ''Deadpool & Wolverine'' (Some 2024))"
    by (simp_all add: search_via_selenium_def nonempty_def)
  show ?thesis
    using rt_search_movie_returns_string [of SearchFailed SearchFailed
        "''Deadpool & Wolverine''" "Some 2024"] n
    by (simp add: s)
qed

text \<open>
  For the title ``!!!'' the result is the empty string.
\<close>

theorem rt_search_movie_empty_slug_counterexample:
  "rt_search_movie SearchFailed SearchFailed ''!!!'' (Some 2020) = Some []"
  by code_simp

section \<open>Properties of the review extraction\<close>




lemma digit_value_snoc: "digit_value (ds @ [c]) = 10 * digit_value ds + (of_char c - 48)"
  by (simp add: digit_value_def)

lemma digit_value_single: "digit_value [c] = of_char c - 48"
  by (simp add: digit_value_def)

lemma digits_of_digit_value: "digit_value (digits_of n) = n"
proof (induction n rule: digits_of.induct)
  case (1 n)
  show ?case
  proof (cases "n < 10")
    case True
    then show ?thesis by (subst digits_of.simps) (simp add: digit_value_single)
  next
    case False
    have m: "(48 + n mod 10) mod 256 = 48 + n mod 10"
      by (rule mod_less) (use pos_mod_bound[of 10 n] in linarith)
    from False 1 have "digit_value (digits_of (n div 10)) = n div 10" by simp
    then show ?thesis using False
      by (subst digits_of.simps) (simp add: digit_value_snoc m)
  qed
qed

lemma digits_of_inj: "digits_of n = digits_of m \<Longrightarrow> n = m"
  by (metis digits_of_digit_value)

lemma digits_of_no_minus: "CHR ''-'' \<notin> set (digits_of n)"
proof (induction n rule: digits_of.induct)
  case (1 n)
  have d: "\<And>k. k < 10 \<Longrightarrow> char_of (48 + k :: nat) \<noteq> CHR ''-''"
  proof
    fix k :: nat assume "k < 10" "char_of (48 + k) = CHR ''-''"
    then have "of_char (char_of (48 + k)) = (of_char CHR ''-'' :: nat)" by simp
    with \<open>k < 10\<close> show False by simp
  qed
  show ?case
  proof (cases "n < 10")
    case True
    then show ?thesis using d[of n] by (subst digits_of.simps) simp
  next
    case False
    then show ?thesis using 1 d[of "n mod 10"]
      by (subst digits_of.simps) simp
  qed
qed

lemma digits_of_nonempty: "digits_of n \<noteq> []"
  by (subst digits_of.simps) simp

lemma py_str_inj: "py_str n = py_str m \<Longrightarrow> n = m"
proof -
  assume h: "py_str n = py_str m"
  show ?thesis
  proof (cases "n < 0"; cases "m < 0")
    assume "n < 0" "m < 0"
    with h have "nat (- n) = nat (- m)" by (simp add: py_str_def digits_of_inj)
    with \<open>n < 0\<close> \<open>m < 0\<close> show ?thesis by simp
  next
    assume "n < 0" "\<not> m < 0"
    with h have "CHR ''-'' # digits_of (nat (- n)) = digits_of (nat m)"
      by (simp add: py_str_def)
    then have "CHR ''-'' \<in> set (digits_of (nat m))" by (metis list.set_intros(1))
    with digits_of_no_minus show ?thesis by blast
  next
    assume "\<not> n < 0" "m < 0"
    with h have "digits_of (nat n) = CHR ''-'' # digits_of (nat (- m))"
      by (simp add: py_str_def)
    then have "CHR ''-'' \<in> set (digits_of (nat n))" by (metis list.set_intros(1))
    with digits_of_no_minus show ?thesis by blast
  next
    assume "\<not> n < 0" "\<not> m < 0"
    with h have "nat n = nat m" by (simp add: py_str_def digits_of_inj)
    with \<open>\<not> n < 0\<close> \<open>\<not> m < 0\<close> show ?thesis by simp
  qed
qed

text \<open>
  Claim C6. The fingerprint of a review is \<^verbatim>\<open>hash(text)\<close>, the built-in hash of the running
  process, and the \<^verbatim>\<open>source_id\<close> is built from it. Two processes that parse the same card
  build the same \<^verbatim>\<open>source_id\<close> exactly when their hashes of the text agree.
\<close>

theorem source_id_follows_process_hash:
  "parse_review_card_selenium h1 card_element e = Some r1
     \<and> parse_review_card_selenium h2 card_element e = Some r2
   \<longrightarrow> review_text r1 = review_text r2
     \<and> source_id r1 = Some (''rt_'' @ e @ ''_'' @ py_str (h1 (review_text r1)))
     \<and> (source_id r1 = source_id r2) = (h1 (review_text r1) = h2 (review_text r1))"
  by (auto simp: parse_review_card_selenium_def split: option.splits if_splits dest: py_str_inj)

theorem source_id_follows_process_hash_witness:
  "parse_review_card_selenium (example_hash 0) example_card ''all_critics''
     = Some (example_review ''rt_all_critics_14'' ''A great movie.'' ''critic'')
   \<and> parse_review_card_selenium (example_hash 7) example_card ''all_critics''
     = Some (example_review ''rt_all_critics_21'' ''A great movie.'' ''critic'')
   \<and> source_id (example_review ''rt_all_critics_14'' ''A great movie.'' ''critic'')
     \<noteq> source_id (example_review ''rt_all_critics_21'' ''A great movie.'' ''critic'')"
proof -
  have a: "parse_review_card_selenium (example_hash 0) example_card ''all_critics''
     = Some (example_review ''rt_all_critics_14'' ''A great movie.'' ''critic'')"
    by code_simp
  have b: "parse_review_card_selenium (example_hash 7) example_card ''all_critics''
     = Some (example_review ''rt_all_critics_21'' ''A great movie.'' ''critic'')"
    by code_simp
  have h: "example_hash 0 ''A great movie.'' \<noteq> example_hash 7 ''A great movie.''"
    by (simp add: example_hash_def)
  have t: "review_text (example_review ''rt_all_critics_14'' ''A great movie.'' ''critic'')
      = ''A great movie.''"
    by (simp add: example_review_def)
  have "(source_id (example_review ''rt_all_critics_14'' ''A great movie.'' ''critic'')
        = source_id (example_review ''rt_all_critics_21'' ''A great movie.'' ''critic''))
      = (example_hash 0
           (review_text (example_review ''rt_all_critics_14'' ''A great movie.'' ''critic''))
         = example_hash 7
           (review_text (example_review ''rt_all_critics_14'' ''A great movie.'' ''critic'')))"
    using source_id_follows_process_hash [of "example_hash 0" example_card "''all_critics''"
        "example_review ''rt_all_critics_14'' ''A great movie.'' ''critic''"
        "example_hash 7"
        "example_review ''rt_all_critics_21'' ''A great movie.'' ''critic''"] a b
    by blast
  then have "source_id (example_review ''rt_all_critics_14'' ''A great movie.'' ''critic'')
      \<noteq> source_id (example_review ''rt_all_critics_21'' ''A great movie.'' ''critic'')"
    using h unfolding t by blast
  with a b show ?thesis by blast
qed

end
